theory Spec2Isabelle
  imports Main
begin

section \<open>Meeting summarizer: a shallow embedding of \<open>main.py\<close>\<close>

text \<open>
  The program is one Python module: three agent definitions, an in-memory job store
  (\<open>jobs: dict[str, dict]\<close>), the background coroutine \<open>_run_agents\<close>, and the
  HTTP handlers \<open>health\<close>, \<open>summarize_job\<close> and \<open>get_job\<close>. The agent runner
  (\<open>Runner.run\<close>) and \<open>uuid.uuid4\<close> are external: the runner is a parameter of the
  model, the generated identifier is an input of the submit handler.
\<close>

subsection \<open>Python values\<close>

text \<open>
  The values that occur: \<open>None\<close>, strings, lists and tuples. A runner's
  \<open>final_output\<close> is typed \<open>Any\<close> by the SDK, so it is a \<open>pyval\<close>.
\<close>

datatype pyval =
    PyNone
  | PyStr string
  | PyList "pyval list"
  | PyTuple "pyval list"

text \<open>Python's truth value: \<open>None\<close>, the empty string and empty sequences are falsy.\<close>

fun truthy :: "pyval \<Rightarrow> bool" where
  "truthy PyNone = False"
| "truthy (PyStr s) = (s \<noteq> [])"
| "truthy (PyList xs) = (xs \<noteq> [])"
| "truthy (PyTuple xs) = (xs \<noteq> [])"

text \<open>\<open>a or b\<close>: the first operand when it is truthy, the second otherwise.\<close>

definition py_or :: "pyval \<Rightarrow> pyval \<Rightarrow> pyval" where
  "py_or a b = (if truthy a then a else b)"

fun is_str :: "pyval \<Rightarrow> bool" where
  "is_str (PyStr s) = True"
| "is_str v = False"

subsection \<open>Exceptions\<close>

text \<open>
  An exception raised by the runner is known by two observations, the only ones the
  program makes: whether it is an instance of \<open>Exception\<close> (what
  \<open>except Exception\<close> tests; \<open>asyncio.CancelledError\<close> and
  \<open>KeyboardInterrupt\<close> are not) and its text \<open>str(e)\<close>. The \<open>KeyError\<close> of
  a dictionary indexing with a missing key carries the key.
\<close>

datatype py_exc =
    Raised bool string
  | KeyError string

fun is_Exception :: "py_exc \<Rightarrow> bool" where
  "is_Exception (Raised b t) = b"
| "is_Exception (KeyError k) = True"

text \<open>
  \<open>str\<close> of a \<open>KeyError\<close> is \<open>repr\<close> of its key. A \<open>char\<close> stands for
  the code point of the same number (below 256). \<open>py_repr\<close> is Python's \<open>repr\<close>
  on such strings: the quote is \<open>"\<close> when the string has a \<open>'\<close> and no \<open>"\<close>,
  else \<open>'\<close>; the quote and the backslash are escaped; tab, newline and carriage
  return are written \<open>\t\<close>, \<open>\n\<close>, \<open>\r\<close>; every other character that is not
  printable is written \<open>\xhh\<close>: the control characters below 0x20, 0x7F to 0x9F,
  the no-break space 0xA0 and the soft hyphen 0xAD.
\<close>

definition hex_digit :: "nat \<Rightarrow> char" where
  "hex_digit n = ''0123456789abcdef'' ! (n mod 16)"

definition repr_char :: "char \<Rightarrow> char \<Rightarrow> string" where
  "repr_char q c =
     (if c = q \<or> c = CHR 0x5C then [CHR 0x5C, c]
      else if c = CHR 0x09 then [CHR 0x5C, CHR ''t'']
      else if c = CHR 0x0A then [CHR 0x5C, CHR ''n'']
      else if c = CHR 0x0D then [CHR 0x5C, CHR ''r'']
      else if of_char c < (32::nat) \<or> (127 \<le> (of_char c :: nat) \<and> of_char c \<le> (160::nat))
              \<or> c = CHR 0xAD
        then [CHR 0x5C, CHR ''x'', hex_digit (of_char c div 16), hex_digit (of_char c)]
      else [c])"

definition py_repr :: "string \<Rightarrow> string" where
  "py_repr s =
     (let q = (if CHR 0x27 \<in> set s \<and> CHR 0x22 \<notin> set s then CHR 0x22 else CHR 0x27)
      in [q] @ concat (map (repr_char q) s) @ [q])"

fun py_str :: "py_exc \<Rightarrow> string" where
  "py_str (Raised b t) = t"
| "py_str (KeyError k) = py_repr k"

subsection \<open>Agent definitions\<close>

datatype tool = send_email

text \<open>
  \<open>Agent(name=..., instructions=..., model=..., tools=...)\<close>; \<open>tools\<close> defaults to
  the empty list. \<open>instructions\<close> holds whatever value the module passes.
\<close>

record agent =
  name :: string
  instructions :: pyval
  model :: string
  tools :: "tool list"

definition transcriber :: agent where
  "transcriber = \<lparr>
     name = ''Transcriber'',
     instructions =
       PyStr ''You turn raw meeting audio transcripts into clean, speaker-labelled text.'',
     model = ''gemini-1.5-flash'',
     tools = [] \<rparr>"

text \<open>
  The parenthesised expression of the Clarifier ends in a comma after the second string
  literal, so it is a tuple of one string (the two adjacent literals concatenated).
\<close>

definition clarifier :: agent where
  "clarifier = \<lparr>
     name = ''Clarifier'',
     instructions =
       PyTuple [PyStr (''Read the transcript and ask the summarizer to resolve any ambiguous '' @
                       ''points before final summary is produced.'')],
     model = ''gemini-1.5-flash'',
     tools = [] \<rparr>"

definition summarizer :: agent where
  "summarizer = \<lparr>
     name = ''Summarizer'',
     instructions =
       PyStr (''Produce a concise 1-page summary plus a Mermaid timeline. '' @
              ''Then call send_email to deliver it.''),
     model = ''gemini-1.5-flash'',
     tools = [send_email] \<rparr>"

subsection \<open>The external runner\<close>

text \<open>
  One call \<open>Runner.run(agent, input, context=...)\<close>: the agent, the input and the
  optional context dictionary (in insertion order). The runner either raises or returns
  a result whose \<open>final_output\<close> is the value on the right. The three calls of one
  run name three different agents, so a function of the call describes any behaviour
  of the runner during that run.
\<close>

datatype call = Call (call_agent: agent) (call_input: pyval)
  (call_context: "(string \<times> pyval) list option")

type_synonym runner = "call \<Rightarrow> py_exc + pyval"

subsection \<open>The job store\<close>

type_synonym job_record = "string \<rightharpoonup> string"
type_synonym store = "string \<rightharpoonup> job_record"

text \<open>
  \<open>jobs[job_id][key] = v\<close>: the indexing \<open>jobs[job_id]\<close> raises \<open>KeyError\<close> when
  the identifier is not a key; otherwise the record found is updated in place.
\<close>

definition set_item :: "store \<Rightarrow> string \<Rightarrow> string \<Rightarrow> string \<Rightarrow> py_exc + store" where
  "set_item jobs job_id key v =
     (case jobs job_id of
        None \<Rightarrow> Inl (KeyError job_id)
      | Some r \<Rightarrow> Inr (jobs(job_id \<mapsto> r(key \<mapsto> v))))"

subsection \<open>The background runner \<open>_run_agents\<close>\<close>

text \<open>The context dictionary of the third call.\<close>

definition summary_context :: "string \<Rightarrow> (string \<times> pyval) list" where
  "summary_context job_id =
     [(''recipients'', PyList [PyStr ''team@example.com'']),
      (''subject'', PyStr (''Summary #'' @ job_id))]"

text \<open>
  The body of the \<open>try\<close>: the result is the exception raised, if any, the store and
  the runner calls made, in order.
\<close>

definition agents_try ::
  "runner \<Rightarrow> string \<Rightarrow> string \<Rightarrow> store \<Rightarrow> (py_exc + unit) \<times> store \<times> call list" where
  "agents_try run job_id transcript jobs =
     (let call1 = Call transcriber (PyStr transcript) None in
      case run call1 of
        Inl e \<Rightarrow> (Inl e, jobs, [call1])
      | Inr clean_text \<Rightarrow>
         (let call2 = Call clarifier clean_text None in
          case run call2 of
            Inl e \<Rightarrow> (Inl e, jobs, [call1, call2])
          | Inr output2 \<Rightarrow>
             (let clarified = py_or output2 clean_text;
                  call3 = Call summarizer clarified (Some (summary_context job_id)) in
              case run call3 of
                Inl e \<Rightarrow> (Inl e, jobs, [call1, call2, call3])
              | Inr output3 \<Rightarrow>
                 (case set_item jobs job_id ''status'' ''completed'' of
                    Inl e \<Rightarrow> (Inl e, jobs, [call1, call2, call3])
                  | Inr jobs' \<Rightarrow> (Inr (), jobs', [call1, call2, call3])))))"

text \<open>
  How the coroutine ends: it returns, or an exception leaves it (one that
  \<open>except Exception\<close> does not catch, or one raised inside the handler).
\<close>

datatype outcome = Returned | Uncaught py_exc

definition run_agents ::
  "runner \<Rightarrow> string \<Rightarrow> string \<Rightarrow> store \<Rightarrow> outcome \<times> store \<times> call list" where
  "run_agents run job_id transcript jobs =
     (case agents_try run job_id transcript jobs of
        (Inr u, jobs', calls) \<Rightarrow> (Returned, jobs', calls)
      | (Inl e, jobs', calls) \<Rightarrow>
          if \<not> is_Exception e then (Uncaught e, jobs', calls)
          else
            (case set_item jobs' job_id ''status'' ''failed'' of
               Inl ke \<Rightarrow> (Uncaught ke, jobs', calls)
             | Inr jobs1 \<Rightarrow>
                (case set_item jobs1 job_id ''error'' (py_str e) of
                   Inl ke \<Rightarrow> (Uncaught ke, jobs1, calls)
                 | Inr jobs2 \<Rightarrow> (Returned, jobs2, calls))))"

subsection \<open>Endpoints\<close>

text \<open>
  A handler returns a JSON object (served with status 200) or raises
  \<open>HTTPException(status_code, detail)\<close>.
\<close>

datatype http_exception = HTTPException nat string

definition health :: "(string \<times> string) list" where
  "health = [(''status'', ''ok'')]"

text \<open>
  The server: the job store and the tasks created by \<open>asyncio.create_task\<close> that
  have not finished, each with the arguments of its \<open>_run_agents\<close>.
\<close>

record server =
  jobs :: store
  tasks :: "(string \<times> string) list"

text \<open>\<open>summarize_job\<close>; \<open>uuid4\<close> is the string of the identifier generated.\<close>

definition summarize_job ::
  "string \<Rightarrow> string \<Rightarrow> server \<Rightarrow> (string \<times> string) list \<times> server" where
  "summarize_job uuid4 transcript s =
     (let job_id = uuid4;
          s1 = s\<lparr>jobs := (jobs s)(job_id \<mapsto> [''status'' \<mapsto> ''started''])\<rparr>;
          s2 = s1\<lparr>tasks := tasks s1 @ [(job_id, transcript)]\<rparr>
      in ([(''job_id'', job_id), (''status'', ''queued'')], s2))"

definition get_job :: "store \<Rightarrow> string \<Rightarrow> http_exception + job_record" where
  "get_job js job_id =
     (case js job_id of
        None \<Rightarrow> Inl (HTTPException 404 ''job not found'')
      | Some r \<Rightarrow> Inr r)"

subsection \<open>Executions of the server\<close>

text \<open>
  \<open>_run_agents\<close> reads and writes the store only after its last \<open>await\<close>, in
  statements with no suspension between them, so on the single-threaded event loop the
  store's part of a task is one atomic step, taken when the task finishes: \<open>Complete\<close>,
  with the behaviour of the runner during that task. A task that hangs never takes it.
  \<open>Submit\<close> is a request to \<open>POST /summarize\<close> with the identifier \<open>uuid4\<close>
  returns; \<open>uuid4\<close> is taken not to return an identifier already in the store.
  \<open>Query\<close> is a request to \<open>GET /jobs/{job_id}\<close>, which changes nothing.
\<close>

datatype event =
    Submit string string
  | Complete string runner
  | Query string

fun apply_event :: "event \<Rightarrow> server \<Rightarrow> server option" where
  "apply_event (Submit uuid4 transcript) s =
     (if jobs s uuid4 \<noteq> None then None
      else Some (snd (summarize_job uuid4 transcript s)))"
| "apply_event (Complete job_id run) s =
     (case map_of (tasks s) job_id of
        None \<Rightarrow> None
      | Some transcript \<Rightarrow>
          (case run_agents run job_id transcript (jobs s) of
             (out, jobs', calls) \<Rightarrow>
               Some (s\<lparr>jobs := jobs', tasks := remove1 (job_id, transcript) (tasks s)\<rparr>)))"
| "apply_event (Query job_id) s = Some s"

fun run_events :: "event list \<Rightarrow> server \<Rightarrow> server option" where
  "run_events [] s = Some s"
| "run_events (ev # evs) s =
     (case apply_event ev s of None \<Rightarrow> None | Some s' \<Rightarrow> run_events evs s')"

definition init_server :: server where
  "init_server = \<lparr>jobs = Map.empty, tasks = []\<rparr>"

text \<open>Reading a field of a job's record, for stating properties.\<close>

definition job_field :: "store \<Rightarrow> string \<Rightarrow> string \<Rightarrow> string option" where
  "job_field js job_id key = (case js job_id of None \<Rightarrow> None | Some r \<Rightarrow> r key)"

subsection \<open>Stub runners and sample states\<close>

text \<open>
  Runners for concrete runs: \<open>echo_runner\<close> returns its input as the final output;
  \<open>stub_runner a res\<close> does the same except on a call for agent \<open>a\<close>, where the
  outcome is \<open>res\<close> (an exception raised or an output returned).
\<close>

definition echo_runner :: runner where
  "echo_runner c = Inr (call_input c)"

definition stub_runner :: "agent \<Rightarrow> py_exc + pyval \<Rightarrow> runner" where
  "stub_runner a res c = (if call_agent c = a then res else Inr (call_input c))"

text \<open>The server after one submission, and after that job's task has finished.\<close>

definition demo_started :: server where
  "demo_started = \<lparr>jobs = [''job-1'' \<mapsto> [''status'' \<mapsto> ''started'']],
                    tasks = [(''job-1'', ''Alice: Hi.'')]\<rparr>"

definition demo_completed :: server where
  "demo_completed = \<lparr>jobs = [''job-1'' \<mapsto> [''status'' \<mapsto> ''completed'']], tasks = []\<rparr>"

definition demo_failed :: server where
  "demo_failed = \<lparr>jobs = [''job-1'' \<mapsto> [''status'' \<mapsto> ''failed'', ''error'' \<mapsto> ''boom'']],
                   tasks = []\<rparr>"

subsection \<open>The invariant of the server\<close>

text \<open>
  Every task not yet finished belongs to a job whose record is \<open>{"status": "started"}\<close>,
  no two such tasks belong to one job, and every record has one of three shapes:
  started, completed, or failed with an error text.
\<close>

definition server_inv :: "server \<Rightarrow> bool" where
  "server_inv s \<longleftrightarrow>
     (\<forall>(job_id, transcript) \<in> set (tasks s). jobs s job_id = Some [''status'' \<mapsto> ''started''])
   \<and> distinct (map fst (tasks s))
   \<and> (\<forall>job_id r. jobs s job_id = Some r \<longrightarrow>
         r = [''status'' \<mapsto> ''started''] \<or> r = [''status'' \<mapsto> ''completed'']
       \<or> (\<exists>t. r = [''status'' \<mapsto> ''failed'', ''error'' \<mapsto> t]))"

section \<open>Properties\<close>

subsection \<open>Effect of \<open>_run_agents\<close> on the store\<close>

lemma agents_try_store:
  assumes "agents_try run job_id tr js = (res, js', calls)"
  shows "(res = Inr () \<and> (\<exists>r. js job_id = Some r \<and> js' = js(job_id \<mapsto> r(''status'' \<mapsto> ''completed''))))
       \<or> (\<exists>e. res = Inl e \<and> js' = js)"
  using assms
  by (auto simp: agents_try_def Let_def set_item_def split: sum.splits option.splits)

lemma run_agents_store:
  assumes "js job_id = Some r" and "run_agents run job_id tr js = (out, js', calls)"
  shows "js' = js \<or> js' = js(job_id \<mapsto> r(''status'' \<mapsto> ''completed''))
       \<or> (\<exists>e. js' = js(job_id \<mapsto> r(''status'' \<mapsto> ''failed'', ''error'' \<mapsto> py_str e)))"
proof (cases "agents_try run job_id tr js")
  case (fields res js1 calls1)
  from agents_try_store[OF fields] assms fields show ?thesis
    by (auto simp: run_agents_def set_item_def split: if_splits)
qed

lemma run_agents_absent:
  assumes "js job_id = None" and "run_agents run job_id tr js = (out, js', calls)"
  shows "js' = js"
proof (cases "agents_try run job_id tr js")
  case (fields res js1 calls1)
  from agents_try_store[OF fields] assms fields show ?thesis
    by (auto simp: run_agents_def set_item_def split: if_splits)
qed

lemma run_agents_other:
  assumes "run_agents run job_id tr js = (out, js', calls)" and "j \<noteq> job_id"
  shows "js' j = js j"
proof (cases "js job_id")
  case None
  from run_agents_absent[OF None assms(1)] show ?thesis by simp
next
  case (Some r)
  from run_agents_store[OF Some assms(1)] assms(2) show ?thesis by auto
qed

lemma run_agents_keeps_keys:
  assumes "run_agents run job_id tr js = (out, js', calls)" and "js j \<noteq> None"
  shows "js' j \<noteq> None"
proof (cases "j = job_id")
  case False
  with run_agents_other[OF assms(1)] assms(2) show ?thesis by simp
next
  case True
  with assms(2) obtain r where r: "js job_id = Some r" by auto
  from run_agents_store[OF r assms(1)] True r show ?thesis by auto
qed

lemma run_agents_calls:
  "snd (snd (run_agents run job_id transcript js)) = snd (snd (agents_try run job_id transcript js))"
  by (simp add: run_agents_def split: prod.splits sum.splits)

lemma agents_try_three_calls:
  assumes "run (Call transcriber (PyStr transcript) None) = Inr clean_text"
    and "run (Call clarifier clean_text None) = Inr output2"
  shows "snd (snd (agents_try run job_id transcript js)) =
           [Call transcriber (PyStr transcript) None, Call clarifier clean_text None,
            Call summarizer (py_or output2 clean_text) (Some (summary_context job_id))]"
  using assms by (simp add: agents_try_def Let_def split: sum.splits)

lemma run_agents_success:
  assumes "js job_id = Some r"
    and "run (Call transcriber (PyStr transcript) None) = Inr clean_text"
    and "run (Call clarifier clean_text None) = Inr output2"
    and "run (Call summarizer (py_or output2 clean_text) (Some (summary_context job_id))) = Inr output3"
  shows "run_agents run job_id transcript js =
           (Returned, js(job_id \<mapsto> r(''status'' \<mapsto> ''completed'')),
            [Call transcriber (PyStr transcript) None, Call clarifier clean_text None,
             Call summarizer (py_or output2 clean_text) (Some (summary_context job_id))])"
  using assms by (simp add: run_agents_def agents_try_def set_item_def)

lemma run_agents_error_text:
  assumes "js job_id = Some r" and "r ''error'' = None"
    and "run_agents run job_id tr js = (out, js', calls)"
    and "js' job_id = Some r'" and "r' ''error'' = Some t"
  shows "\<exists>e. fst (agents_try run job_id tr js) = Inl e \<and> is_Exception e \<and> t = py_str e"
proof (cases "agents_try run job_id tr js")
  case (fields res js1 calls1)
  from agents_try_store[OF fields] assms fields show ?thesis
    by (auto simp: run_agents_def set_item_def split: if_splits)
qed

lemma run_agents_no_key_error:
  assumes "js job_id = Some r"
  shows "fst (run_agents run job_id tr js) = Returned
       \<or> (\<exists>e. fst (run_agents run job_id tr js) = Uncaught e \<and> \<not> is_Exception e)"
proof (cases "agents_try run job_id tr js")
  case (fields res js1 calls1)
  show ?thesis
  proof (cases res)
    case (Inr u)
    with fields show ?thesis by (simp add: run_agents_def)
  next
    case (Inl e)
    with agents_try_store[OF fields] have js1: "js1 = js" by simp
    show ?thesis
    proof (cases "is_Exception e")
      case False
      with fields Inl show ?thesis by (simp add: run_agents_def)
    next
      case True
      with fields Inl js1 assms show ?thesis by (simp add: run_agents_def set_item_def)
    qed
  qed
qed

lemma agents_distinct:
  "transcriber \<noteq> clarifier" "transcriber \<noteq> summarizer" "clarifier \<noteq> summarizer"
  "clarifier \<noteq> transcriber" "summarizer \<noteq> transcriber" "summarizer \<noteq> clarifier"
  by (simp_all add: transcriber_def clarifier_def summarizer_def)

subsection \<open>\<open>repr\<close> of a key\<close>

lemma py_repr_examples:
  "py_repr ''job-1'' = [CHR 0x27] @ ''job-1'' @ [CHR 0x27]"
  "py_repr [CHR 0xA0] = [CHR 0x27, CHR 0x5C, CHR ''x'', CHR ''a'', CHR ''0'', CHR 0x27]"
  by (simp_all add: py_repr_def repr_char_def hex_digit_def Let_def)

subsection \<open>The invariant holds in every reachable state\<close>

lemma server_inv_init: "server_inv init_server"
  by (simp add: server_inv_def init_server_def)

lemma remove1_other_key:
  assumes "distinct (map fst xs)" and "(a, b) \<in> set xs" and "(a', b') \<in> set (remove1 (a, b) xs)"
  shows "a' \<noteq> a \<and> (a', b') \<in> set xs"
proof -
  from assms(1) have d: "distinct xs" by (rule distinct_map[THEN iffD1, THEN conjunct1])
  with assms(3) have in_xs: "(a', b') \<in> set xs" and ne: "(a', b') \<noteq> (a, b)" by auto
  have "a' \<noteq> a"
  proof
    assume "a' = a"
    with assms(1,2) in_xs have "b' = b" by (auto dest: eq_key_imp_eq_value)
    with \<open>a' = a\<close> ne show False by simp
  qed
  with in_xs show ?thesis by simp
qed

lemma distinct_fst_remove1: "distinct (map fst xs) \<Longrightarrow> distinct (map fst (remove1 x xs))"
  by (induction xs) (auto dest: notin_set_remove1 simp: image_iff)

lemma server_inv_submit:
  assumes "server_inv s" and "jobs s uuid4 = None"
  shows "server_inv (snd (summarize_job uuid4 transcript s))"
  using assms
  by (auto simp: server_inv_def summarize_job_def Let_def image_iff split: prod.splits)

lemma server_inv_complete:
  assumes inv: "server_inv s" and pend: "map_of (tasks s) job_id = Some transcript"
    and run: "run_agents run job_id transcript (jobs s) = (out, js', calls)"
  shows "server_inv (s\<lparr>jobs := js', tasks := remove1 (job_id, transcript) (tasks s)\<rparr>)"
proof -
  from pend have mem: "(job_id, transcript) \<in> set (tasks s)" by (rule map_of_SomeD)
  with inv have rec: "jobs s job_id = Some [''status'' \<mapsto> ''started'']"
    by (auto simp: server_inv_def)
  from inv have d: "distinct (map fst (tasks s))" by (simp add: server_inv_def)
  note eff = run_agents_store[OF rec run]
  have other: "\<And>j. j \<noteq> job_id \<Longrightarrow> js' j = jobs s j" using eff by auto
  have t1: "\<forall>(j, t) \<in> set (remove1 (job_id, transcript) (tasks s)).
              js' j = Some [''status'' \<mapsto> ''started'']"
  proof (clarify)
    fix j t assume "(j, t) \<in> set (remove1 (job_id, transcript) (tasks s))"
    from remove1_other_key[OF d mem this] have "j \<noteq> job_id" and "(j, t) \<in> set (tasks s)" by simp_all
    with inv other show "js' j = Some [''status'' \<mapsto> ''started'']"
      by (auto simp: server_inv_def)
  qed
  have t3: "\<forall>j r. js' j = Some r \<longrightarrow>
         r = [''status'' \<mapsto> ''started''] \<or> r = [''status'' \<mapsto> ''completed'']
       \<or> (\<exists>t. r = [''status'' \<mapsto> ''failed'', ''error'' \<mapsto> t])"
  proof (intro allI impI)
    fix j r assume jr: "js' j = Some r"
    show "r = [''status'' \<mapsto> ''started''] \<or> r = [''status'' \<mapsto> ''completed'']
       \<or> (\<exists>t. r = [''status'' \<mapsto> ''failed'', ''error'' \<mapsto> t])"
    proof (cases "j = job_id")
      case True
      with eff jr rec show ?thesis by auto
    next
      case False
      with other jr inv show ?thesis by (simp add: server_inv_def)
    qed
  qed
  from t1 t3 distinct_fst_remove1[OF d] show ?thesis by (simp add: server_inv_def)
qed

lemma server_inv_step:
  assumes "server_inv s" and "apply_event ev s = Some s'"
  shows "server_inv s'"
proof (cases ev)
  case (Submit u t)
  with assms show ?thesis by (auto simp: server_inv_submit split: if_splits)
next
  case (Complete j run)
  with assms show ?thesis
    by (auto simp: server_inv_complete split: option.splits prod.splits)
next
  case (Query j)
  with assms show ?thesis by simp
qed

lemma server_inv_run_events:
  "server_inv s \<Longrightarrow> run_events evs s = Some s' \<Longrightarrow> server_inv s'"
  by (induction evs arbitrary: s) (auto dest: server_inv_step split: option.splits)

lemma server_inv_reachable: "run_events evs init_server = Some s \<Longrightarrow> server_inv s"
  using server_inv_run_events[OF server_inv_init] .

lemma inv_status:
  assumes "server_inv s" and "jobs s j = Some r"
  shows "r ''status'' = Some ''started'' \<or> r ''status'' = Some ''completed'' \<or> r ''status'' = Some ''failed''"
proof -
  from assms have "r = [''status'' \<mapsto> ''started''] \<or> r = [''status'' \<mapsto> ''completed'']
       \<or> (\<exists>t. r = [''status'' \<mapsto> ''failed'', ''error'' \<mapsto> t])"
    unfolding server_inv_def by blast
  then show ?thesis by auto
qed

subsection \<open>Records along an execution\<close>

lemma apply_event_keeps_keys:
  assumes "apply_event ev s = Some s'" and "jobs s j \<noteq> None"
  shows "jobs s' j \<noteq> None"
proof (cases ev)
  case (Submit u t)
  with assms show ?thesis by (auto simp: summarize_job_def Let_def split: if_splits)
next
  case (Complete i run)
  with assms show ?thesis
    by (auto split: option.splits prod.splits dest: run_agents_keeps_keys)
next
  case (Query i)
  with assms show ?thesis by simp
qed

lemma run_events_keeps_keys:
  "run_events evs s = Some s' \<Longrightarrow> jobs s j \<noteq> None \<Longrightarrow> jobs s' j \<noteq> None"
proof (induction evs arbitrary: s)
  case Nil
  then show ?case by simp
next
  case (Cons ev evs)
  from Cons.prems(1) obtain s1 where a: "apply_event ev s = Some s1" and b: "run_events evs s1 = Some s'"
    by (auto split: option.splits)
  from Cons.IH[OF b apply_event_keeps_keys[OF a Cons.prems(2)]] show ?case .
qed

lemma apply_event_creates:
  assumes "apply_event ev s = Some s'" and "jobs s j = None"
  shows "jobs s' j = None \<or> jobs s' j = Some [''status'' \<mapsto> ''started'']"
proof (cases ev)
  case (Submit u t)
  with assms show ?thesis by (auto simp: summarize_job_def Let_def split: if_splits)
next
  case (Query i)
  with assms show ?thesis by simp
next
  case (Complete i run)
  with assms(1) obtain tr out js' calls where
    ra: "run_agents run i tr (jobs s) = (out, js', calls)" and s': "jobs s' = js'"
    by (auto split: option.splits prod.splits)
  show ?thesis
  proof (cases "j = i")
    case False
    from run_agents_other[OF ra False] s' assms(2) show ?thesis by simp
  next
    case True
    with assms(2) run_agents_absent[OF _ ra] s' show ?thesis by simp
  qed
qed

lemma step_record:
  assumes inv: "server_inv s" and step: "apply_event ev s = Some s'" and rec: "jobs s j = Some r"
  shows "jobs s' j = Some r
       \<or> (r = [''status'' \<mapsto> ''started''] \<and>
           (\<exists>run tr. ev = Complete j run \<and> map_of (tasks s) j = Some tr) \<and>
           (jobs s' j = Some [''status'' \<mapsto> ''completed'']
            \<or> (\<exists>t. jobs s' j = Some [''status'' \<mapsto> ''failed'', ''error'' \<mapsto> t])))"
proof (cases ev)
  case (Submit u t)
  with step rec show ?thesis by (auto simp: summarize_job_def Let_def split: if_splits)
next
  case (Query i)
  with step rec show ?thesis by simp
next
  case (Complete i run)
  with step obtain tr out js' calls where pend: "map_of (tasks s) i = Some tr"
    and ra: "run_agents run i tr (jobs s) = (out, js', calls)" and s': "jobs s' = js'"
    by (auto split: option.splits prod.splits)
  show ?thesis
  proof (cases "j = i")
    case False
    from run_agents_other[OF ra False] s' rec show ?thesis by simp
  next
    case True
    from pend have "(i, tr) \<in> set (tasks s)" by (rule map_of_SomeD)
    with inv have started: "jobs s i = Some [''status'' \<mapsto> ''started'']"
      by (auto simp: server_inv_def)
    with rec True have r: "r = [''status'' \<mapsto> ''started'']" by simp
    from run_agents_store[OF started ra] s' True r rec Complete pend show ?thesis by auto
  qed
qed

lemma run_events_record:
  assumes "server_inv s" and "run_events evs s = Some s'" and "jobs s j = Some r"
  shows "\<exists>r'. jobs s' j = Some r' \<and>
           (r' = r \<or> r = [''status'' \<mapsto> ''started''] \<and>
              (r' = [''status'' \<mapsto> ''completed''] \<or> (\<exists>t. r' = [''status'' \<mapsto> ''failed'', ''error'' \<mapsto> t])))"
  using assms
proof (induction evs arbitrary: s r)
  case Nil
  then show ?case by simp
next
  case (Cons ev evs)
  from Cons.prems(2) obtain s1 where a: "apply_event ev s = Some s1" and b: "run_events evs s1 = Some s'"
    by (auto split: option.splits)
  have inv1: "server_inv s1" using server_inv_step[OF Cons.prems(1) a] .
  from step_record[OF Cons.prems(1) a Cons.prems(3)]
  consider (same) "jobs s1 j = Some r"
    | (fin) r1 where "r = [''status'' \<mapsto> ''started'']" "jobs s1 j = Some r1"
        "r1 = [''status'' \<mapsto> ''completed''] \<or> (\<exists>t. r1 = [''status'' \<mapsto> ''failed'', ''error'' \<mapsto> t])"
    by auto
  then show ?case
  proof cases
    case same
    from Cons.IH[OF inv1 b same] show ?thesis .
  next
    case fin
    from fin(3) have ne: "r1 \<noteq> [''status'' \<mapsto> ''started'']"
      by (auto dest: fun_cong[where x="''status''"])
    from Cons.IH[OF inv1 b fin(2)] ne fin(1,3) show ?thesis by blast
  qed
qed

lemma run_events_snoc:
  "run_events (xs @ [ev]) s = Some s' \<longleftrightarrow> (\<exists>s1. run_events xs s = Some s1 \<and> apply_event ev s1 = Some s')"
  by (induction xs arbitrary: s) (auto split: option.splits)

subsection \<open>The sample states are reached\<close>

lemma demo_submit: "run_events [Submit ''job-1'' ''Alice: Hi.''] init_server = Some demo_started"
  by (simp add: init_server_def summarize_job_def demo_started_def Let_def)

lemma demo_complete: "apply_event (Complete ''job-1'' echo_runner) demo_started = Some demo_completed"
  by (simp add: demo_started_def demo_completed_def run_agents_def agents_try_def set_item_def
      echo_runner_def py_or_def)

lemma demo_fail:
  "apply_event (Complete ''job-1'' (stub_runner transcriber (Inl (Raised True ''boom'')))) demo_started = Some demo_failed"
  by (simp add: demo_started_def demo_failed_def run_agents_def agents_try_def set_item_def
      stub_runner_def)

lemma demo_record: "jobs demo_started ''job-1'' = Some [''status'' \<mapsto> ''started'']"
  by (simp add: demo_started_def)

lemma demo_pending: "map_of (tasks demo_started) ''job-1'' = Some ''Alice: Hi.''"
  by (simp add: demo_started_def)

lemma demo_fail_run:
  "run_events [Submit ''job-1'' ''Alice: Hi.'',
               Complete ''job-1'' (stub_runner transcriber (Inl (Raised True ''boom'')))] init_server
     = Some demo_failed"
proof -
  have "run_events ([Submit ''job-1'' ''Alice: Hi.''] @
          [Complete ''job-1'' (stub_runner transcriber (Inl (Raised True ''boom'')))]) init_server
        = Some demo_failed"
    unfolding run_events_snoc using demo_submit demo_fail by blast
  then show ?thesis by (simp only: append_Cons append_Nil)
qed

text \<open>
  What the assumption on \<open>uuid4\<close> excludes: a submission with an identifier already in
  the store would overwrite its record.
\<close>

lemma resubmit_same_id_restarts:
  "jobs (snd (summarize_job ''job-1'' ''Bob: Bye.'' demo_completed)) ''job-1''
     = Some [''status'' \<mapsto> ''started'']"
  by (simp add: summarize_job_def Let_def)

lemma missing_key_raises:
  "run_agents echo_runner ''job-9'' ''Alice: Hi.'' Map.empty =
     (Uncaught (KeyError ''job-9''), Map.empty,
      [Call transcriber (PyStr ''Alice: Hi.'') None, Call clarifier (PyStr ''Alice: Hi.'') None,
       Call summarizer (PyStr ''Alice: Hi.'') (Some (summary_context ''job-9''))])"
  by (simp add: run_agents_def agents_try_def set_item_def echo_runner_def py_or_def)

section \<open>The claims\<close>

text \<open>
  C1, as the code has it. The job's record exists and one of the three runner calls
  raises \<open>e\<close>; the runner calls made are exactly those up to the failing stage: one
  when stage 1 fails, two when stage 2 fails, three when stage 3 fails. When \<open>e\<close> is
  an instance of \<open>Exception\<close>, \<open>_run_agents\<close> returns and the record has status
  \<open>failed\<close> and an \<open>error\<close> field equal to \<open>str(e)\<close> (present, and the empty
  string when \<open>str(e)\<close> is). When \<open>e\<close> is not an instance of \<open>Exception\<close>, it is
  not caught: it leaves the coroutine and the store is unchanged, the record still
  started.
\<close>

theorem failure_marks_failed_and_aborts:
  assumes "js job_id = Some r"
  shows "(run (Call transcriber (PyStr transcript) None) = Inl e \<longrightarrow>
            run_agents run job_id transcript js =
              (if is_Exception e
               then (Returned, js(job_id \<mapsto> r(''status'' \<mapsto> ''failed'', ''error'' \<mapsto> py_str e)),
                     [Call transcriber (PyStr transcript) None])
               else (Uncaught e, js, [Call transcriber (PyStr transcript) None])))
       \<and> (\<forall>clean_text.
            run (Call transcriber (PyStr transcript) None) = Inr clean_text \<and>
            run (Call clarifier clean_text None) = Inl e \<longrightarrow>
            run_agents run job_id transcript js =
              (if is_Exception e
               then (Returned, js(job_id \<mapsto> r(''status'' \<mapsto> ''failed'', ''error'' \<mapsto> py_str e)),
                     [Call transcriber (PyStr transcript) None, Call clarifier clean_text None])
               else (Uncaught e, js,
                     [Call transcriber (PyStr transcript) None, Call clarifier clean_text None])))
       \<and> (\<forall>clean_text output2.
            run (Call transcriber (PyStr transcript) None) = Inr clean_text \<and>
            run (Call clarifier clean_text None) = Inr output2 \<and>
            run (Call summarizer (py_or output2 clean_text) (Some (summary_context job_id))) = Inl e \<longrightarrow>
            run_agents run job_id transcript js =
              (if is_Exception e
               then (Returned, js(job_id \<mapsto> r(''status'' \<mapsto> ''failed'', ''error'' \<mapsto> py_str e)),
                     [Call transcriber (PyStr transcript) None, Call clarifier clean_text None,
                      Call summarizer (py_or output2 clean_text) (Some (summary_context job_id))])
               else (Uncaught e, js,
                     [Call transcriber (PyStr transcript) None, Call clarifier clean_text None,
                      Call summarizer (py_or output2 clean_text) (Some (summary_context job_id))])))"
  using assms by (simp add: run_agents_def agents_try_def set_item_def)

text \<open>
  C1 at a runner that raises \<open>Exception("boom")\<close>, and at one that raises an exception
  that is not an \<open>Exception\<close>, at stage 1, at stage 2, at stage 3.
\<close>

theorem failure_marks_failed_and_aborts_witness:
  "jobs demo_started ''job-1'' = Some [''status'' \<mapsto> ''started'']
 \<and> stub_runner transcriber (Inl (Raised True ''boom''))
       (Call transcriber (PyStr ''Alice: Hi.'') None) = Inl (Raised True ''boom'')
 \<and> run_agents (stub_runner transcriber (Inl (Raised True ''boom''))) ''job-1'' ''Alice: Hi.'' (jobs demo_started)
     = (Returned,
        (jobs demo_started)(''job-1'' \<mapsto> [''status'' \<mapsto> ''failed'', ''error'' \<mapsto> ''boom'']),
        [Call transcriber (PyStr ''Alice: Hi.'') None])
 \<and> stub_runner clarifier (Inl (Raised True ''boom''))
       (Call transcriber (PyStr ''Alice: Hi.'') None) = Inr (PyStr ''Alice: Hi.'')
 \<and> stub_runner clarifier (Inl (Raised True ''boom''))
       (Call clarifier (PyStr ''Alice: Hi.'') None) = Inl (Raised True ''boom'')
 \<and> run_agents (stub_runner clarifier (Inl (Raised True ''boom''))) ''job-1'' ''Alice: Hi.'' (jobs demo_started)
     = (Returned,
        (jobs demo_started)(''job-1'' \<mapsto> [''status'' \<mapsto> ''failed'', ''error'' \<mapsto> ''boom'']),
        [Call transcriber (PyStr ''Alice: Hi.'') None,
         Call clarifier (PyStr ''Alice: Hi.'') None])
 \<and> stub_runner summarizer (Inl (Raised True ''boom''))
       (Call transcriber (PyStr ''Alice: Hi.'') None) = Inr (PyStr ''Alice: Hi.'')
 \<and> stub_runner summarizer (Inl (Raised True ''boom''))
       (Call clarifier (PyStr ''Alice: Hi.'') None) = Inr (PyStr ''Alice: Hi.'')
 \<and> stub_runner summarizer (Inl (Raised True ''boom''))
       (Call summarizer (py_or (PyStr ''Alice: Hi.'') (PyStr ''Alice: Hi.''))
          (Some (summary_context ''job-1''))) = Inl (Raised True ''boom'')
 \<and> run_agents (stub_runner summarizer (Inl (Raised True ''boom''))) ''job-1'' ''Alice: Hi.'' (jobs demo_started)
     = (Returned,
        (jobs demo_started)(''job-1'' \<mapsto> [''status'' \<mapsto> ''failed'', ''error'' \<mapsto> ''boom'']),
        [Call transcriber (PyStr ''Alice: Hi.'') None,
         Call clarifier (PyStr ''Alice: Hi.'') None,
         Call summarizer (py_or (PyStr ''Alice: Hi.'') (PyStr ''Alice: Hi.''))
          (Some (summary_context ''job-1''))])
 \<and> stub_runner transcriber (Inl (Raised False ''cancelled''))
       (Call transcriber (PyStr ''Alice: Hi.'') None) = Inl (Raised False ''cancelled'')
 \<and> run_agents (stub_runner transcriber (Inl (Raised False ''cancelled''))) ''job-1'' ''Alice: Hi.'' (jobs demo_started)
     = (Uncaught (Raised False ''cancelled''), jobs demo_started,
        [Call transcriber (PyStr ''Alice: Hi.'') None])
 \<and> stub_runner clarifier (Inl (Raised False ''cancelled''))
       (Call transcriber (PyStr ''Alice: Hi.'') None) = Inr (PyStr ''Alice: Hi.'')
 \<and> stub_runner clarifier (Inl (Raised False ''cancelled''))
       (Call clarifier (PyStr ''Alice: Hi.'') None) = Inl (Raised False ''cancelled'')
 \<and> run_agents (stub_runner clarifier (Inl (Raised False ''cancelled''))) ''job-1'' ''Alice: Hi.'' (jobs demo_started)
     = (Uncaught (Raised False ''cancelled''), jobs demo_started,
        [Call transcriber (PyStr ''Alice: Hi.'') None,
         Call clarifier (PyStr ''Alice: Hi.'') None])
 \<and> stub_runner summarizer (Inl (Raised False ''cancelled''))
       (Call transcriber (PyStr ''Alice: Hi.'') None) = Inr (PyStr ''Alice: Hi.'')
 \<and> stub_runner summarizer (Inl (Raised False ''cancelled''))
       (Call clarifier (PyStr ''Alice: Hi.'') None) = Inr (PyStr ''Alice: Hi.'')
 \<and> stub_runner summarizer (Inl (Raised False ''cancelled''))
       (Call summarizer (py_or (PyStr ''Alice: Hi.'') (PyStr ''Alice: Hi.''))
          (Some (summary_context ''job-1''))) = Inl (Raised False ''cancelled'')
 \<and> run_agents (stub_runner summarizer (Inl (Raised False ''cancelled''))) ''job-1'' ''Alice: Hi.'' (jobs demo_started)
     = (Uncaught (Raised False ''cancelled''), jobs demo_started,
        [Call transcriber (PyStr ''Alice: Hi.'') None,
         Call clarifier (PyStr ''Alice: Hi.'') None,
         Call summarizer (py_or (PyStr ''Alice: Hi.'') (PyStr ''Alice: Hi.''))
          (Some (summary_context ''job-1''))])"
proof -
  have h1_0: "stub_runner transcriber (Inl (Raised True ''boom''))
       (Call transcriber (PyStr ''Alice: Hi.'') None) = Inl (Raised True ''boom'')"
    by (simp add: stub_runner_def)
  have r1: "run_agents (stub_runner transcriber (Inl (Raised True ''boom''))) ''job-1'' ''Alice: Hi.'' (jobs demo_started)
     = (Returned,
        (jobs demo_started)(''job-1'' \<mapsto> [''status'' \<mapsto> ''failed'', ''error'' \<mapsto> ''boom'']),
        [Call transcriber (PyStr ''Alice: Hi.'') None])"
    using failure_marks_failed_and_aborts[where js="jobs demo_started" and job_id="''job-1''"
        and transcript="''Alice: Hi.''" and e="Raised True ''boom''" and run="stub_runner transcriber (Inl (Raised True ''boom''))",
        OF demo_record, THEN conjunct1, rule_format, OF h1_0]
    by simp
  have h2_0: "stub_runner clarifier (Inl (Raised True ''boom''))
       (Call transcriber (PyStr ''Alice: Hi.'') None) = Inr (PyStr ''Alice: Hi.'')"
    by (simp add: stub_runner_def agents_distinct)
  have h2_1: "stub_runner clarifier (Inl (Raised True ''boom''))
       (Call clarifier (PyStr ''Alice: Hi.'') None) = Inl (Raised True ''boom'')"
    by (simp add: stub_runner_def)
  have r2: "run_agents (stub_runner clarifier (Inl (Raised True ''boom''))) ''job-1'' ''Alice: Hi.'' (jobs demo_started)
     = (Returned,
        (jobs demo_started)(''job-1'' \<mapsto> [''status'' \<mapsto> ''failed'', ''error'' \<mapsto> ''boom'']),
        [Call transcriber (PyStr ''Alice: Hi.'') None,
         Call clarifier (PyStr ''Alice: Hi.'') None])"
    using failure_marks_failed_and_aborts[where js="jobs demo_started" and job_id="''job-1''"
        and transcript="''Alice: Hi.''" and e="Raised True ''boom''" and run="stub_runner clarifier (Inl (Raised True ''boom''))",
        OF demo_record, THEN conjunct2, THEN conjunct1, rule_format, OF conjI[OF h2_0 h2_1]]
    by simp
  have h3_0: "stub_runner summarizer (Inl (Raised True ''boom''))
       (Call transcriber (PyStr ''Alice: Hi.'') None) = Inr (PyStr ''Alice: Hi.'')"
    by (simp add: stub_runner_def agents_distinct)
  have h3_1: "stub_runner summarizer (Inl (Raised True ''boom''))
       (Call clarifier (PyStr ''Alice: Hi.'') None) = Inr (PyStr ''Alice: Hi.'')"
    by (simp add: stub_runner_def agents_distinct)
  have h3_2: "stub_runner summarizer (Inl (Raised True ''boom''))
       (Call summarizer (py_or (PyStr ''Alice: Hi.'') (PyStr ''Alice: Hi.''))
          (Some (summary_context ''job-1''))) = Inl (Raised True ''boom'')"
    by (simp add: stub_runner_def)
  have r3: "run_agents (stub_runner summarizer (Inl (Raised True ''boom''))) ''job-1'' ''Alice: Hi.'' (jobs demo_started)
     = (Returned,
        (jobs demo_started)(''job-1'' \<mapsto> [''status'' \<mapsto> ''failed'', ''error'' \<mapsto> ''boom'']),
        [Call transcriber (PyStr ''Alice: Hi.'') None,
         Call clarifier (PyStr ''Alice: Hi.'') None,
         Call summarizer (py_or (PyStr ''Alice: Hi.'') (PyStr ''Alice: Hi.''))
          (Some (summary_context ''job-1''))])"
    using failure_marks_failed_and_aborts[where js="jobs demo_started" and job_id="''job-1''"
        and transcript="''Alice: Hi.''" and e="Raised True ''boom''" and run="stub_runner summarizer (Inl (Raised True ''boom''))",
        OF demo_record, THEN conjunct2, THEN conjunct2, rule_format, OF conjI[OF h3_0 conjI[OF h3_1 h3_2]]]
    by simp
  have h4_0: "stub_runner transcriber (Inl (Raised False ''cancelled''))
       (Call transcriber (PyStr ''Alice: Hi.'') None) = Inl (Raised False ''cancelled'')"
    by (simp add: stub_runner_def)
  have r4: "run_agents (stub_runner transcriber (Inl (Raised False ''cancelled''))) ''job-1'' ''Alice: Hi.'' (jobs demo_started)
     = (Uncaught (Raised False ''cancelled''), jobs demo_started,
        [Call transcriber (PyStr ''Alice: Hi.'') None])"
    using failure_marks_failed_and_aborts[where js="jobs demo_started" and job_id="''job-1''"
        and transcript="''Alice: Hi.''" and e="Raised False ''cancelled''" and run="stub_runner transcriber (Inl (Raised False ''cancelled''))",
        OF demo_record, THEN conjunct1, rule_format, OF h4_0]
    by simp
  have h5_0: "stub_runner clarifier (Inl (Raised False ''cancelled''))
       (Call transcriber (PyStr ''Alice: Hi.'') None) = Inr (PyStr ''Alice: Hi.'')"
    by (simp add: stub_runner_def agents_distinct)
  have h5_1: "stub_runner clarifier (Inl (Raised False ''cancelled''))
       (Call clarifier (PyStr ''Alice: Hi.'') None) = Inl (Raised False ''cancelled'')"
    by (simp add: stub_runner_def)
  have r5: "run_agents (stub_runner clarifier (Inl (Raised False ''cancelled''))) ''job-1'' ''Alice: Hi.'' (jobs demo_started)
     = (Uncaught (Raised False ''cancelled''), jobs demo_started,
        [Call transcriber (PyStr ''Alice: Hi.'') None,
         Call clarifier (PyStr ''Alice: Hi.'') None])"
    using failure_marks_failed_and_aborts[where js="jobs demo_started" and job_id="''job-1''"
        and transcript="''Alice: Hi.''" and e="Raised False ''cancelled''" and run="stub_runner clarifier (Inl (Raised False ''cancelled''))",
        OF demo_record, THEN conjunct2, THEN conjunct1, rule_format, OF conjI[OF h5_0 h5_1]]
    by simp
  have h6_0: "stub_runner summarizer (Inl (Raised False ''cancelled''))
       (Call transcriber (PyStr ''Alice: Hi.'') None) = Inr (PyStr ''Alice: Hi.'')"
    by (simp add: stub_runner_def agents_distinct)
  have h6_1: "stub_runner summarizer (Inl (Raised False ''cancelled''))
       (Call clarifier (PyStr ''Alice: Hi.'') None) = Inr (PyStr ''Alice: Hi.'')"
    by (simp add: stub_runner_def agents_distinct)
  have h6_2: "stub_runner summarizer (Inl (Raised False ''cancelled''))
       (Call summarizer (py_or (PyStr ''Alice: Hi.'') (PyStr ''Alice: Hi.''))
          (Some (summary_context ''job-1''))) = Inl (Raised False ''cancelled'')"
    by (simp add: stub_runner_def)
  have r6: "run_agents (stub_runner summarizer (Inl (Raised False ''cancelled''))) ''job-1'' ''Alice: Hi.'' (jobs demo_started)
     = (Uncaught (Raised False ''cancelled''), jobs demo_started,
        [Call transcriber (PyStr ''Alice: Hi.'') None,
         Call clarifier (PyStr ''Alice: Hi.'') None,
         Call summarizer (py_or (PyStr ''Alice: Hi.'') (PyStr ''Alice: Hi.''))
          (Some (summary_context ''job-1''))])"
    using failure_marks_failed_and_aborts[where js="jobs demo_started" and job_id="''job-1''"
        and transcript="''Alice: Hi.''" and e="Raised False ''cancelled''" and run="stub_runner summarizer (Inl (Raised False ''cancelled''))",
        OF demo_record, THEN conjunct2, THEN conjunct2, rule_format, OF conjI[OF h6_0 conjI[OF h6_1 h6_2]]]
    by simp
  from demo_record h1_0 r1 h2_0 h2_1 r2 h3_0 h3_1 h3_2 r3 h4_0 r4 h5_0 h5_1 r5 h6_0 h6_1 h6_2 r6
  show ?thesis by (intro conjI)
qed

text \<open>
  C1 as stated fails twice at a runner raising at stage 1. An exception whose text is
  empty (\<open>asyncio.TimeoutError()\<close>, \<open>Exception()\<close>) leaves the \<open>error\<close> field
  equal to the empty string. An exception that is not an instance of \<open>Exception\<close>
  (\<open>asyncio.CancelledError\<close>) is not caught: it leaves the coroutine and the record
  stays \<open>{"status": "started"}\<close>.
\<close>

theorem failure_empty_text_or_uncaught:
  "run_agents (stub_runner transcriber (Inl (Raised True []))) ''job-1'' ''hi'' [''job-1'' \<mapsto> [''status'' \<mapsto> ''started'']]
     = (Returned, [''job-1'' \<mapsto> [''status'' \<mapsto> ''failed'', ''error'' \<mapsto> []]],
        [Call transcriber (PyStr ''hi'') None])
   \<and> run_agents (stub_runner transcriber (Inl (Raised False ''cancelled''))) ''job-1'' ''hi''
        [''job-1'' \<mapsto> [''status'' \<mapsto> ''started'']]
     = (Uncaught (Raised False ''cancelled''), [''job-1'' \<mapsto> [''status'' \<mapsto> ''started'']],
        [Call transcriber (PyStr ''hi'') None])"
  by (simp add: run_agents_def agents_try_def set_item_def stub_runner_def)

text \<open>
  C2, as the code has it. When the Transcriber call returns the clean text and the
  Clarifier call returns an empty output (\<open>None\<close> or the empty string: a falsy
  value), the third runner call is the Summarizer's with the clean text as its input, in
  place of the Clarifier's output; that input is the empty string exactly when the clean
  text is.
\<close>

theorem clarifier_fallback:
  assumes "run (Call transcriber (PyStr transcript) None) = Inr clean_text"
    and "run (Call clarifier clean_text None) = Inr output2"
    and "\<not> truthy output2"
  shows "snd (snd (run_agents run job_id transcript js)) =
           [Call transcriber (PyStr transcript) None, Call clarifier clean_text None,
            Call summarizer clean_text (Some (summary_context job_id))]
       \<and> (call_input (snd (snd (run_agents run job_id transcript js)) ! 2) = PyStr []
            \<longleftrightarrow> clean_text = PyStr [])"
  using assms(3) agents_try_three_calls[OF assms(1,2)]
  by (simp add: run_agents_calls py_or_def)

text \<open>C2 at a runner whose Clarifier returns the empty string, on a non-empty clean text.\<close>

theorem clarifier_fallback_witness:
  "stub_runner clarifier (Inr (PyStr [])) (Call transcriber (PyStr ''Alice: Hi.'') None)
     = Inr (PyStr ''Alice: Hi.'')
 \<and> stub_runner clarifier (Inr (PyStr [])) (Call clarifier (PyStr ''Alice: Hi.'') None) = Inr (PyStr [])
 \<and> \<not> truthy (PyStr [])
 \<and> snd (snd (run_agents (stub_runner clarifier (Inr (PyStr []))) ''job-1'' ''Alice: Hi.''
       (jobs demo_started)))
     = [Call transcriber (PyStr ''Alice: Hi.'') None, Call clarifier (PyStr ''Alice: Hi.'') None,
        Call summarizer (PyStr ''Alice: Hi.'') (Some (summary_context ''job-1''))]
 \<and> call_input (snd (snd (run_agents (stub_runner clarifier (Inr (PyStr []))) ''job-1''
       ''Alice: Hi.'' (jobs demo_started))) ! 2) \<noteq> PyStr []"
proof -
  have h1: "stub_runner clarifier (Inr (PyStr [])) (Call transcriber (PyStr ''Alice: Hi.'') None)
     = Inr (PyStr ''Alice: Hi.'')"
    by (simp add: stub_runner_def agents_distinct)
  have h2: "stub_runner clarifier (Inr (PyStr [])) (Call clarifier (PyStr ''Alice: Hi.'') None)
     = Inr (PyStr [])"
    by (simp add: stub_runner_def)
  have h3: "\<not> truthy (PyStr [])" by simp
  note th = clarifier_fallback[where run="stub_runner clarifier (Inr (PyStr []))"
      and js="jobs demo_started" and job_id="''job-1''", OF h1 h2 h3]
  from th[THEN conjunct2]
  have ne: "call_input (snd (snd (run_agents (stub_runner clarifier (Inr (PyStr []))) ''job-1''
       ''Alice: Hi.'' (jobs demo_started))) ! 2) \<noteq> PyStr []"
    by simp
  from h1 h2 h3 th[THEN conjunct1] ne show ?thesis by (intro conjI)
qed

text \<open>
  C2 as stated fails when the clean text is itself empty: on the transcript \<open>""\<close>,
  returned as it is by the Transcriber, and a Clarifier output \<open>None\<close>, the Summarizer
  receives the empty string.
\<close>

theorem clarifier_fallback_empty_clean_text:
  "stub_runner clarifier (Inr PyNone) (Call transcriber (PyStr []) None) = Inr (PyStr [])
 \<and> stub_runner clarifier (Inr PyNone) (Call clarifier (PyStr []) None) = Inr PyNone
 \<and> \<not> truthy PyNone
 \<and> snd (snd (run_agents (stub_runner clarifier (Inr PyNone)) ''job-1'' []
       [''job-1'' \<mapsto> [''status'' \<mapsto> ''started'']]))
     = [Call transcriber (PyStr []) None, Call clarifier (PyStr []) None,
        Call summarizer (PyStr []) (Some (summary_context ''job-1''))]"
  by (simp add: run_agents_calls agents_try_def stub_runner_def agents_distinct py_or_def
      set_item_def Let_def)

text \<open>
  C3. In a state \<open>s\<close> reached from the empty server, and \<open>s'\<close> any state reached
  later: a record in the store has status started, completed or failed; it is still in
  the store in \<open>s'\<close> (never deleted); there it is either unchanged, or it was started
  and is now completed or failed; a completed or failed record is unchanged (terminal,
  no way back to started). An identifier absent from the store is, one event later,
  absent or mapped to \<open>{"status": "started"}\<close>. The store is a map, so an identifier
  has one record.
\<close>

theorem job_status_monotone_terminal:
  assumes "run_events evs init_server = Some s" and "run_events evs' s = Some s'"
  shows "(\<forall>r. jobs s job_id = Some r \<longrightarrow>
            (r ''status'' = Some ''started'' \<or> r ''status'' = Some ''completed''
               \<or> r ''status'' = Some ''failed'')
          \<and> (\<exists>r'. jobs s' job_id = Some r' \<and>
                (r' = r \<or> r ''status'' = Some ''started'' \<and>
                   (r' ''status'' = Some ''completed'' \<or> r' ''status'' = Some ''failed''))
              \<and> (r ''status'' \<noteq> Some ''started'' \<longrightarrow> r' = r)))
       \<and> (jobs s job_id = None \<longrightarrow>
            (\<forall>ev. evs' = [ev] \<longrightarrow>
               jobs s' job_id = None \<or> jobs s' job_id = Some [''status'' \<mapsto> ''started'']))"
proof (intro conjI allI impI)
  note inv = server_inv_reachable[OF assms(1)]
  fix r assume r: "jobs s job_id = Some r"
  show "r ''status'' = Some ''started'' \<or> r ''status'' = Some ''completed''
          \<or> r ''status'' = Some ''failed''"
    using inv_status[OF inv r] .
  from run_events_record[OF inv assms(2) r] obtain r' where r': "jobs s' job_id = Some r'"
    and rel: "r' = r \<or> r = [''status'' \<mapsto> ''started''] \<and>
              (r' = [''status'' \<mapsto> ''completed'']
               \<or> (\<exists>t. r' = [''status'' \<mapsto> ''failed'', ''error'' \<mapsto> t]))"
    by blast
  from rel have a: "r' = r \<or> r ''status'' = Some ''started'' \<and>
                   (r' ''status'' = Some ''completed'' \<or> r' ''status'' = Some ''failed'')"
    by auto
  from rel have b: "r ''status'' \<noteq> Some ''started'' \<longrightarrow> r' = r" by auto
  from r' a b show "\<exists>r'. jobs s' job_id = Some r' \<and>
                (r' = r \<or> r ''status'' = Some ''started'' \<and>
                   (r' ''status'' = Some ''completed'' \<or> r' ''status'' = Some ''failed''))
              \<and> (r ''status'' \<noteq> Some ''started'' \<longrightarrow> r' = r)"
    by blast
next
  fix ev assume none: "jobs s job_id = None" and ev: "evs' = [ev]"
  from assms(2) ev have "apply_event ev s = Some s'" by (simp split: option.splits)
  from apply_event_creates[OF this none]
  show "jobs s' job_id = None \<or> jobs s' job_id = Some [''status'' \<mapsto> ''started'']" .
qed

text \<open>C3 on one submission followed by the successful run of its task.\<close>

theorem job_status_monotone_terminal_witness:
  "run_events [Submit ''job-1'' ''Alice: Hi.''] init_server = Some demo_started
 \<and> run_events [Complete ''job-1'' echo_runner] demo_started = Some demo_completed
 \<and> jobs demo_started ''job-1'' = Some [''status'' \<mapsto> ''started'']
 \<and> (\<exists>r'. jobs demo_completed ''job-1'' = Some r' \<and>
        (r' = [''status'' \<mapsto> ''started''] \<or>
         (r' ''status'' = Some ''completed'' \<or> r' ''status'' = Some ''failed'')))
 \<and> jobs init_server ''job-1'' = None
 \<and> (jobs demo_started ''job-1'' = None \<or> jobs demo_started ''job-1'' = Some [''status'' \<mapsto> ''started''])"
proof -
  have h2: "run_events [Complete ''job-1'' echo_runner] demo_started = Some demo_completed"
    using demo_complete by simp
  have h0: "run_events [] init_server = Some init_server" by simp
  have r: "jobs demo_started ''job-1'' = Some [''status'' \<mapsto> ''started'']"
    by (simp add: demo_started_def)
  from job_status_monotone_terminal[OF demo_submit h2, of "''job-1''"] r
  have c1: "\<exists>r'. jobs demo_completed ''job-1'' = Some r' \<and>
        (r' = [''status'' \<mapsto> ''started''] \<or>
         (r' ''status'' = Some ''completed'' \<or> r' ''status'' = Some ''failed''))"
    by auto
  have n: "jobs init_server ''job-1'' = None" by (simp add: init_server_def)
  from job_status_monotone_terminal[OF h0 demo_submit, of "''job-1''"] n
  have c2: "jobs demo_started ''job-1'' = None \<or> jobs demo_started ''job-1'' = Some [''status'' \<mapsto> ''started'']"
    by blast
  from demo_submit h2 r c1 n c2 show ?thesis by blast
qed

text \<open>
  C4. In a reachable state with a pending task for the job, when none of the three
  runner calls raises, the task's completion leaves the record equal to
  \<open>{"status": "completed"}\<close>, with no \<open>error\<close> field, and the record is the same
  in every later state.
\<close>

theorem all_stages_succeed_completed:
  assumes reach: "run_events evs init_server = Some s"
    and pend: "map_of (tasks s) job_id = Some transcript"
    and ok1: "run (Call transcriber (PyStr transcript) None) = Inr clean_text"
    and ok2: "run (Call clarifier clean_text None) = Inr output2"
    and ok3: "run (Call summarizer (py_or output2 clean_text) (Some (summary_context job_id)))
                = Inr output3"
  shows "\<exists>s'. apply_event (Complete job_id run) s = Some s'
            \<and> jobs s' job_id = Some [''status'' \<mapsto> ''completed'']
            \<and> job_field (jobs s') job_id ''error'' = None
            \<and> (\<forall>evs' s''. run_events evs' s' = Some s'' \<longrightarrow>
                  jobs s'' job_id = Some [''status'' \<mapsto> ''completed''])"
proof -
  note inv = server_inv_reachable[OF reach]
  from pend have "(job_id, transcript) \<in> set (tasks s)" by (rule map_of_SomeD)
  with inv have rec: "jobs s job_id = Some [''status'' \<mapsto> ''started'']"
    by (auto simp: server_inv_def)
  define s' where "s' = s\<lparr>jobs := (jobs s)(job_id \<mapsto> [''status'' \<mapsto> ''completed'']),
                          tasks := remove1 (job_id, transcript) (tasks s)\<rparr>"
  from run_agents_success[where js="jobs s" and job_id=job_id and run=run, OF rec ok1 ok2 ok3] pend
  have step: "apply_event (Complete job_id run) s = Some s'"
    by (simp add: s'_def)
  have now: "jobs s' job_id = Some [''status'' \<mapsto> ''completed'']" by (simp add: s'_def)
  have inv': "server_inv s'" using server_inv_step[OF inv step] .
  have later: "jobs s'' job_id = Some [''status'' \<mapsto> ''completed'']"
    if "run_events evs' s' = Some s''" for evs' s''
  proof -
    have ne: "[''status'' \<mapsto> ''completed''] \<noteq> [''status'' \<mapsto> ''started'']"
      by (auto dest: map_upd_eqD1)
    from run_events_record[OF inv' that now] ne show ?thesis by blast
  qed
  from step now later show ?thesis by (auto simp: job_field_def)
qed

text \<open>C4 on the sample job with the echoing runner, then a query and another submission.\<close>

theorem all_stages_succeed_completed_witness:
  "run_events [Submit ''job-1'' ''Alice: Hi.''] init_server = Some demo_started
 \<and> map_of (tasks demo_started) ''job-1'' = Some ''Alice: Hi.''
 \<and> echo_runner (Call transcriber (PyStr ''Alice: Hi.'') None) = Inr (PyStr ''Alice: Hi.'')
 \<and> echo_runner (Call clarifier (PyStr ''Alice: Hi.'') None) = Inr (PyStr ''Alice: Hi.'')
 \<and> echo_runner (Call summarizer (py_or (PyStr ''Alice: Hi.'') (PyStr ''Alice: Hi.''))
        (Some (summary_context ''job-1''))) = Inr (PyStr ''Alice: Hi.'')
 \<and> apply_event (Complete ''job-1'' echo_runner) demo_started = Some demo_completed
 \<and> jobs demo_completed ''job-1'' = Some [''status'' \<mapsto> ''completed'']
 \<and> job_field (jobs demo_completed) ''job-1'' ''error'' = None
 \<and> run_events [Query ''job-1'', Submit ''job-2'' ''Bob: Bye.''] demo_completed
       = Some (snd (summarize_job ''job-2'' ''Bob: Bye.'' demo_completed))
 \<and> jobs (snd (summarize_job ''job-2'' ''Bob: Bye.'' demo_completed)) ''job-1''
       = Some [''status'' \<mapsto> ''completed'']"
proof -
  have p: "map_of (tasks demo_started) ''job-1'' = Some ''Alice: Hi.''"
    by (simp add: demo_started_def)
  have e1: "echo_runner (Call transcriber (PyStr ''Alice: Hi.'') None) = Inr (PyStr ''Alice: Hi.'')"
    by (simp add: echo_runner_def)
  have e2: "echo_runner (Call clarifier (PyStr ''Alice: Hi.'') None) = Inr (PyStr ''Alice: Hi.'')"
    by (simp add: echo_runner_def)
  have e3: "echo_runner (Call summarizer (py_or (PyStr ''Alice: Hi.'') (PyStr ''Alice: Hi.''))
        (Some (summary_context ''job-1''))) = Inr (PyStr ''Alice: Hi.'')"
    by (simp add: echo_runner_def py_or_def)
  from all_stages_succeed_completed[OF demo_submit p e1 e2 e3]
  obtain s' where s': "apply_event (Complete ''job-1'' echo_runner) demo_started = Some s'"
    and now: "jobs s' ''job-1'' = Some [''status'' \<mapsto> ''completed'']"
    and noerr: "job_field (jobs s') ''job-1'' ''error'' = None"
    and later: "\<And>evs' s''. run_events evs' s' = Some s'' \<Longrightarrow>
                  jobs s'' ''job-1'' = Some [''status'' \<mapsto> ''completed'']"
    by blast
  from s' demo_complete have eq: "s' = demo_completed" by simp
  have l: "run_events [Query ''job-1'', Submit ''job-2'' ''Bob: Bye.''] demo_completed
       = Some (snd (summarize_job ''job-2'' ''Bob: Bye.'' demo_completed))"
    by (simp add: demo_completed_def)
  note fin = later[unfolded eq, OF l]
  from demo_submit p e1 e2 e3 demo_complete now[unfolded eq] noerr[unfolded eq] l fin
  show ?thesis by (intro conjI)
qed

text \<open>
  C5. \<open>summarize_job\<close> returns \<open>{"job_id": job_id, "status": "queued"}\<close> with the
  identifier generated; in the state it leaves, the store maps that identifier to
  \<open>{"status": "started"}\<close> and the task is scheduled, so \<open>get_job\<close> returns the
  record; and in no later state does \<open>get_job\<close> raise not-found for it.
\<close>

theorem submit_creates_started_record:
  assumes "summarize_job uuid4 transcript s = (response, s')"
  shows "response = [(''job_id'', uuid4), (''status'', ''queued'')]
       \<and> jobs s' uuid4 = Some [''status'' \<mapsto> ''started'']
       \<and> (uuid4, transcript) \<in> set (tasks s')
       \<and> get_job (jobs s') uuid4 = Inr [''status'' \<mapsto> ''started'']
       \<and> (\<forall>evs s''. run_events evs s' = Some s'' \<longrightarrow>
             get_job (jobs s'') uuid4 \<noteq> Inl (HTTPException 404 ''job not found''))"
proof -
  from assms have r: "response = [(''job_id'', uuid4), (''status'', ''queued'')]"
    and j: "jobs s' uuid4 = Some [''status'' \<mapsto> ''started'']"
    and t: "(uuid4, transcript) \<in> set (tasks s')"
    by (auto simp: summarize_job_def Let_def)
  have later: "get_job (jobs s'') uuid4 \<noteq> Inl (HTTPException 404 ''job not found'')"
    if "run_events evs s' = Some s''" for evs s''
  proof -
    from run_events_keeps_keys[OF that] j have "jobs s'' uuid4 \<noteq> None" by simp
    then show ?thesis by (auto simp: get_job_def)
  qed
  from r j t later show ?thesis by (simp add: get_job_def)
qed

text \<open>C5 on the first submission to the empty server, and after its task has finished.\<close>

theorem submit_creates_started_record_witness:
  "summarize_job ''job-1'' ''Alice: Hi.'' init_server
     = ([(''job_id'', ''job-1''), (''status'', ''queued'')], demo_started)
 \<and> jobs demo_started ''job-1'' = Some [''status'' \<mapsto> ''started'']
 \<and> (''job-1'', ''Alice: Hi.'') \<in> set (tasks demo_started)
 \<and> get_job (jobs demo_started) ''job-1'' = Inr [''status'' \<mapsto> ''started'']
 \<and> run_events [Complete ''job-1'' echo_runner] demo_started = Some demo_completed
 \<and> get_job (jobs demo_completed) ''job-1'' \<noteq> Inl (HTTPException 404 ''job not found'')"
proof -
  have h: "summarize_job ''job-1'' ''Alice: Hi.'' init_server
     = ([(''job_id'', ''job-1''), (''status'', ''queued'')], demo_started)"
    by (simp add: summarize_job_def init_server_def demo_started_def Let_def)
  have l: "run_events [Complete ''job-1'' echo_runner] demo_started = Some demo_completed"
    using demo_complete by simp
  note th = submit_creates_started_record[OF h]
  note c2 = th[THEN conjunct2, THEN conjunct1]
  note c3 = th[THEN conjunct2, THEN conjunct2, THEN conjunct1]
  note c4 = th[THEN conjunct2, THEN conjunct2, THEN conjunct2, THEN conjunct1]
  note c5 = th[THEN conjunct2, THEN conjunct2, THEN conjunct2, THEN conjunct2, rule_format, OF l]
  from h c2 c3 c4 l c5 show ?thesis by (intro conjI)
qed

text \<open>
  C6. For an identifier that is not a key of the store, \<open>get_job\<close> raises
  \<open>HTTPException(status_code=404, detail="job not found")\<close>; for a key of the store it
  returns the record stored.
\<close>

theorem get_job_not_found_or_record:
  "(js job_id = None \<longrightarrow> get_job js job_id = Inl (HTTPException 404 ''job not found''))
 \<and> (\<forall>r. js job_id = Some r \<longrightarrow> get_job js job_id = Inr r)"
  by (simp add: get_job_def)

text \<open>C6 on the sample store: an unknown identifier and a known one.\<close>

theorem get_job_not_found_or_record_witness:
  "jobs demo_started ''job-2'' = None
 \<and> get_job (jobs demo_started) ''job-2'' = Inl (HTTPException 404 ''job not found'')
 \<and> jobs demo_started ''job-1'' = Some [''status'' \<mapsto> ''started'']
 \<and> get_job (jobs demo_started) ''job-1'' = Inr [''status'' \<mapsto> ''started'']"
proof -
  have n: "jobs demo_started ''job-2'' = None" by (simp add: demo_started_def)
  note a = get_job_not_found_or_record[where js="jobs demo_started" and job_id="''job-2''",
      THEN conjunct1, rule_format, OF n]
  note b = get_job_not_found_or_record[where js="jobs demo_started" and job_id="''job-1''",
      THEN conjunct2, rule_format, OF demo_record]
  from n a demo_record b show ?thesis by (intro conjI)
qed

text \<open>
  C7. In every reachable state, a record with an \<open>error\<close> field has status
  \<open>failed\<close>, and the field's text is \<open>str(e)\<close> of an exception \<open>e\<close>, an instance
  of \<open>Exception\<close>, that the \<open>try\<close> of this job's \<open>_run_agents\<close> raised when its
  task, pending at that point of the execution, finished.
\<close>

theorem error_field_only_when_failed:
  assumes "run_events evs init_server = Some s" and "jobs s job_id = Some r"
    and "r ''error'' = Some t"
  shows "r ''status'' = Some ''failed''
       \<and> (\<exists>evs1 run evs2 s1 transcript e.
             evs = evs1 @ Complete job_id run # evs2
           \<and> run_events evs1 init_server = Some s1
           \<and> map_of (tasks s1) job_id = Some transcript
           \<and> fst (agents_try run job_id transcript (jobs s1)) = Inl e
           \<and> is_Exception e \<and> t = py_str e)"
proof
  from server_inv_reachable[OF assms(1)] assms(2)
  have "r = [''status'' \<mapsto> ''started''] \<or> r = [''status'' \<mapsto> ''completed'']
       \<or> (\<exists>t. r = [''status'' \<mapsto> ''failed'', ''error'' \<mapsto> t])"
    unfolding server_inv_def by blast
  with assms(3) show "r ''status'' = Some ''failed''" by auto
next
  from assms show "\<exists>evs1 run evs2 s1 transcript e.
             evs = evs1 @ Complete job_id run # evs2
           \<and> run_events evs1 init_server = Some s1
           \<and> map_of (tasks s1) job_id = Some transcript
           \<and> fst (agents_try run job_id transcript (jobs s1)) = Inl e
           \<and> is_Exception e \<and> t = py_str e"
  proof (induction evs arbitrary: s rule: rev_induct)
    case Nil
    then show ?case by (auto simp: init_server_def)
  next
    case (snoc ev evs0)
    from snoc.prems(1) obtain s0 where s0: "run_events evs0 init_server = Some s0"
      and step: "apply_event ev s0 = Some s"
      by (auto simp: run_events_snoc)
    note inv0 = server_inv_reachable[OF s0]
    show ?case
    proof (cases "jobs s0 job_id")
      case None
      from apply_event_creates[OF step None] snoc.prems(2,3) show ?thesis by auto
    next
      case (Some r0)
      from step_record[OF inv0 step Some] snoc.prems(2)
      consider (same) "jobs s0 job_id = Some r"
        | (changed) run tr where "r0 = [''status'' \<mapsto> ''started'']" "ev = Complete job_id run"
            "map_of (tasks s0) job_id = Some tr"
        using Some by auto
      then show ?thesis
      proof cases
        case same
        from snoc.IH[OF s0 same snoc.prems(3)] obtain evs1 run evs2 s1 transcript e where
          "evs0 = evs1 @ Complete job_id run # evs2" "run_events evs1 init_server = Some s1"
          "map_of (tasks s1) job_id = Some transcript"
          "fst (agents_try run job_id transcript (jobs s1)) = Inl e" "is_Exception e" "t = py_str e"
          by blast
        then have "evs0 @ [ev] = evs1 @ Complete job_id run # (evs2 @ [ev])
           \<and> run_events evs1 init_server = Some s1
           \<and> map_of (tasks s1) job_id = Some transcript
           \<and> fst (agents_try run job_id transcript (jobs s1)) = Inl e
           \<and> is_Exception e \<and> t = py_str e" by simp
        then show ?thesis by blast
      next
        case changed
        from step changed(2,3) obtain out js' calls where
          ra: "run_agents run job_id tr (jobs s0) = (out, js', calls)" and js': "jobs s = js'"
          by (auto split: prod.splits)
        from Some changed(1) have rec: "jobs s0 job_id = Some [''status'' \<mapsto> ''started'']" by simp
        have noerr: "[''status'' \<mapsto> ''started''] ''error'' = None" by simp
        from snoc.prems(2) js' have r': "js' job_id = Some r" by simp
        from run_agents_error_text[OF rec noerr ra r' snoc.prems(3)]
        obtain e where "fst (agents_try run job_id tr (jobs s0)) = Inl e" "is_Exception e" "t = py_str e"
          by blast
        with s0 changed(2,3) have "evs0 @ [ev] = evs0 @ Complete job_id run # []
           \<and> run_events evs0 init_server = Some s0
           \<and> map_of (tasks s0) job_id = Some tr
           \<and> fst (agents_try run job_id tr (jobs s0)) = Inl e
           \<and> is_Exception e \<and> t = py_str e" by simp
        then show ?thesis by blast
      qed
    qed
  qed
qed

text \<open>C7 on a submission whose task fails at stage 1 with \<open>Exception("boom")\<close>.\<close>

theorem error_field_only_when_failed_witness:
  "run_events [Submit ''job-1'' ''Alice: Hi.'',
               Complete ''job-1'' (stub_runner transcriber (Inl (Raised True ''boom'')))] init_server
     = Some demo_failed
 \<and> jobs demo_failed ''job-1'' = Some [''status'' \<mapsto> ''failed'', ''error'' \<mapsto> ''boom'']
 \<and> [''status'' \<mapsto> ''failed'', ''error'' \<mapsto> ''boom''] ''error'' = Some ''boom''
 \<and> [''status'' \<mapsto> ''failed'', ''error'' \<mapsto> ''boom''] ''status'' = Some ''failed''
 \<and> (\<exists>evs1 run evs2 s1 transcript e.
        [Submit ''job-1'' ''Alice: Hi.'',
         Complete ''job-1'' (stub_runner transcriber (Inl (Raised True ''boom'')))]
          = evs1 @ Complete ''job-1'' run # evs2
      \<and> run_events evs1 init_server = Some s1
      \<and> map_of (tasks s1) ''job-1'' = Some transcript
      \<and> fst (agents_try run ''job-1'' transcript (jobs s1)) = Inl e
      \<and> is_Exception e \<and> ''boom'' = py_str e)"
proof -
  have r: "jobs demo_failed ''job-1'' = Some [''status'' \<mapsto> ''failed'', ''error'' \<mapsto> ''boom'']"
    by (simp add: demo_failed_def)
  have t: "[''status'' \<mapsto> ''failed'', ''error'' \<mapsto> ''boom''] ''error'' = Some ''boom''"
    by simp
  note th = error_field_only_when_failed[OF demo_fail_run r t]
  from demo_fail_run r t th[THEN conjunct1] th[THEN conjunct2] show ?thesis by (intro conjI)
qed

text \<open>
  C8. When the first two runner calls return, the third call is made with the Summarizer
  definition, the clarified text and the context
  \<open>{"recipients": ["team@example.com"], "subject": "Summary #" + job_id}\<close>. The
  clarified text is the Clarifier's output when that is not empty (truthy), and the
  clean text otherwise.
\<close>

theorem summarizer_call:
  assumes "run (Call transcriber (PyStr transcript) None) = Inr clean_text"
    and "run (Call clarifier clean_text None) = Inr output2"
  shows "(truthy output2 \<longrightarrow>
            snd (snd (run_agents run job_id transcript js)) =
              [Call transcriber (PyStr transcript) None, Call clarifier clean_text None,
               Call summarizer output2
                 (Some [(''recipients'', PyList [PyStr ''team@example.com'']),
                        (''subject'', PyStr (''Summary #'' @ job_id))])])
       \<and> (\<not> truthy output2 \<longrightarrow>
            snd (snd (run_agents run job_id transcript js)) =
              [Call transcriber (PyStr transcript) None, Call clarifier clean_text None,
               Call summarizer clean_text
                 (Some [(''recipients'', PyList [PyStr ''team@example.com'']),
                        (''subject'', PyStr (''Summary #'' @ job_id))])])"
  using agents_try_three_calls[OF assms]
  by (simp add: run_agents_calls summary_context_def py_or_def)

text \<open>
  C8 on the sample job: a Clarifier that returns a question of its own, which the
  Summarizer receives, and a Clarifier that returns \<open>None\<close>.
\<close>

theorem summarizer_call_witness:
  "stub_runner clarifier (Inr (PyStr ''Which Friday?'')) (Call transcriber (PyStr ''Alice: Hi.'') None)
     = Inr (PyStr ''Alice: Hi.'')
 \<and> stub_runner clarifier (Inr (PyStr ''Which Friday?'')) (Call clarifier (PyStr ''Alice: Hi.'') None)
     = Inr (PyStr ''Which Friday?'')
 \<and> truthy (PyStr ''Which Friday?'')
 \<and> snd (snd (run_agents (stub_runner clarifier (Inr (PyStr ''Which Friday?''))) ''job-1''
        ''Alice: Hi.'' (jobs demo_started)))
     = [Call transcriber (PyStr ''Alice: Hi.'') None, Call clarifier (PyStr ''Alice: Hi.'') None,
        Call summarizer (PyStr ''Which Friday?'')
          (Some [(''recipients'', PyList [PyStr ''team@example.com'']),
                 (''subject'', PyStr (''Summary #'' @ ''job-1''))])]
 \<and> stub_runner clarifier (Inr PyNone) (Call transcriber (PyStr ''Alice: Hi.'') None)
     = Inr (PyStr ''Alice: Hi.'')
 \<and> stub_runner clarifier (Inr PyNone) (Call clarifier (PyStr ''Alice: Hi.'') None) = Inr PyNone
 \<and> \<not> truthy PyNone
 \<and> snd (snd (run_agents (stub_runner clarifier (Inr PyNone)) ''job-1''
        ''Alice: Hi.'' (jobs demo_started)))
     = [Call transcriber (PyStr ''Alice: Hi.'') None, Call clarifier (PyStr ''Alice: Hi.'') None,
        Call summarizer (PyStr ''Alice: Hi.'')
          (Some [(''recipients'', PyList [PyStr ''team@example.com'']),
                 (''subject'', PyStr (''Summary #'' @ ''job-1''))])]"
proof -
  have a1: "stub_runner clarifier (Inr (PyStr ''Which Friday?''))
       (Call transcriber (PyStr ''Alice: Hi.'') None) = Inr (PyStr ''Alice: Hi.'')"
    by (simp add: stub_runner_def agents_distinct)
  have a2: "stub_runner clarifier (Inr (PyStr ''Which Friday?''))
       (Call clarifier (PyStr ''Alice: Hi.'') None) = Inr (PyStr ''Which Friday?'')"
    by (simp add: stub_runner_def)
  have a3: "truthy (PyStr ''Which Friday?'')" by simp
  note a = summarizer_call[where run="stub_runner clarifier (Inr (PyStr ''Which Friday?''))"
      and js="jobs demo_started" and job_id="''job-1''", OF a1 a2, THEN conjunct1, rule_format, OF a3]
  have b1: "stub_runner clarifier (Inr PyNone) (Call transcriber (PyStr ''Alice: Hi.'') None)
     = Inr (PyStr ''Alice: Hi.'')"
    by (simp add: stub_runner_def agents_distinct)
  have b2: "stub_runner clarifier (Inr PyNone) (Call clarifier (PyStr ''Alice: Hi.'') None)
     = Inr PyNone"
    by (simp add: stub_runner_def)
  have b3: "\<not> truthy PyNone" by simp
  note b = summarizer_call[where run="stub_runner clarifier (Inr PyNone)"
      and js="jobs demo_started" and job_id="''job-1''", OF b1 b2, THEN conjunct2, rule_format, OF b3]
  from a1 a2 a3 a b1 b2 b3 b show ?thesis by (intro conjI)
qed

text \<open>
  C9. The model identifiers are strings and the tool bindings are as claimed (none, none,
  \<open>send_email\<close>); the instructions of the Transcriber and of the Summarizer are
  strings. The instructions of the Clarifier are not: the stray comma makes them a
  one-element tuple holding the text.
\<close>

theorem clarifier_instructions_is_tuple:
  "instructions clarifier =
     PyTuple [PyStr ''Read the transcript and ask the summarizer to resolve any ambiguous points before final summary is produced.'']
   \<and> \<not> is_str (instructions clarifier)
   \<and> is_str (instructions transcriber) \<and> is_str (instructions summarizer)
   \<and> model transcriber = ''gemini-1.5-flash'' \<and> model clarifier = ''gemini-1.5-flash''
   \<and> model summarizer = ''gemini-1.5-flash''
   \<and> tools transcriber = [] \<and> tools clarifier = [] \<and> tools summarizer = [send_email]"
  by (simp add: clarifier_def transcriber_def summarizer_def)

text \<open>
  C10. In every reachable state, a pending task's job identifier is a key of the store,
  and whatever the runner does, \<open>_run_agents\<close> for that task does not end with the
  \<open>KeyError\<close> of a store indexing (\<open>missing_key_raises\<close> shows the run on a store
  without the identifier, which does).
\<close>

theorem store_updates_never_miss_key:
  assumes "run_events evs init_server = Some s" and "map_of (tasks s) job_id = Some transcript"
  shows "jobs s job_id \<noteq> None
       \<and> (\<forall>run k. fst (run_agents run job_id transcript (jobs s)) \<noteq> Uncaught (KeyError k))"
proof -
  from assms(2) have "(job_id, transcript) \<in> set (tasks s)" by (rule map_of_SomeD)
  with server_inv_reachable[OF assms(1)]
  have rec: "jobs s job_id = Some [''status'' \<mapsto> ''started'']"
    by (auto simp: server_inv_def)
  have "fst (run_agents run job_id transcript (jobs s)) \<noteq> Uncaught (KeyError k)" for run k
    using run_agents_no_key_error[where js="jobs s" and job_id=job_id and run=run and tr=transcript, OF rec]
    by auto
  with rec show ?thesis by simp
qed

text \<open>C10 on the sample job, with a runner that succeeds and one that fails at stage 3.\<close>

theorem store_updates_never_miss_key_witness:
  "run_events [Submit ''job-1'' ''Alice: Hi.''] init_server = Some demo_started
 \<and> map_of (tasks demo_started) ''job-1'' = Some ''Alice: Hi.''
 \<and> jobs demo_started ''job-1'' \<noteq> None
 \<and> fst (run_agents echo_runner ''job-1'' ''Alice: Hi.'' (jobs demo_started))
       \<noteq> Uncaught (KeyError ''job-1'')
 \<and> fst (run_agents (stub_runner summarizer (Inl (Raised True ''boom''))) ''job-1'' ''Alice: Hi.''
          (jobs demo_started)) \<noteq> Uncaught (KeyError ''job-1'')"
proof -
  note th = store_updates_never_miss_key[OF demo_submit demo_pending]
  note a = th[THEN conjunct2, rule_format, of echo_runner "''job-1''"]
  note b = th[THEN conjunct2, rule_format,
      of "stub_runner summarizer (Inl (Raised True ''boom''))" "''job-1''"]
  from demo_submit demo_pending th[THEN conjunct1] a b show ?thesis by (intro conjI)
qed

end
